theory Spec2Isabelle
  imports Complex_Main "HOL-Library.AList"
begin

section \<open>Errors\<close>

text \<open>
  Every exception the audio engine of \<^verbatim>\<open>music_ai_core/live_studio.py\<close> can raise is a
  value of this type.  \<open>TrackNotFound\<close> is the \<^verbatim>\<open>ValueError("Track ... not found")\<close> the
  studio raises itself; the others come from Python and numpy primitives the code calls:
  a missing dictionary key, \<^verbatim>\<open>popleft\<close> on an empty deque, \<^verbatim>\<open>np.concatenate([])\<close>,
  \<^verbatim>\<open>np.zeros(n)\<close> with \<open>n < 0\<close> (also a deque with negative \<^verbatim>\<open>maxlen\<close>),
  \<^verbatim>\<open>np.pad\<close> with a negative width, \<^verbatim>\<open>np.max\<close> of an empty array, and \<^verbatim>\<open>1 / 0.0\<close>.
  Samples are modelled as exact reals.
\<close>

datatype error =
    TrackNotFound string
  | KeyError string
  | IndexError
  | NeedAtLeastOneArray
  | NegativeDimensions
  | NegativePadWidth
  | ZeroSizeReduction
  | ZeroDivisionError

section \<open>AudioBuffer\<close>

record AudioBuffer =
  ab_sample_rate :: int
  ab_channels :: int
  ab_max_size :: int
  ab_buffer :: "real list"

text \<open>\<^verbatim>\<open>AudioBuffer(sample_rate, channels, max_size)\<close>: \<^verbatim>\<open>deque(maxlen=...)\<close> refuses a negative bound.\<close>

definition AudioBuffer_init :: "int \<Rightarrow> int \<Rightarrow> int \<Rightarrow> error + AudioBuffer" where
  "AudioBuffer_init sr ch ms =
     (if ms < 0 then Inl NegativeDimensions
      else Inr \<lparr>ab_sample_rate = sr, ab_channels = ch, ab_max_size = ms, ab_buffer = []\<rparr>)"

text \<open>\<^verbatim>\<open>deque.append\<close> on a bounded deque: a full deque drops its oldest entry first.\<close>

definition deque_append :: "int \<Rightarrow> real list \<Rightarrow> real \<Rightarrow> real list" where
  "deque_append maxlen buf x =
     (if maxlen = 0 then buf
      else if int (length buf) = maxlen then tl buf @ [x]
      else buf @ [x])"

definition AudioBuffer_write :: "AudioBuffer \<Rightarrow> real list \<Rightarrow> AudioBuffer" where
  "AudioBuffer_write b data = b\<lparr>ab_buffer := foldl (deque_append (ab_max_size b)) (ab_buffer b) data\<rparr>"

text \<open>The comprehension \<^verbatim>\<open>[self._buffer.popleft() for _ in range(frames)]\<close>: the popped
  samples and what is left; \<^verbatim>\<open>popleft\<close> on an empty deque raises.\<close>

fun popleft_n :: "nat \<Rightarrow> real list \<Rightarrow> error + (real list \<times> real list)" where
  "popleft_n 0 buf = Inr ([], buf)"
| "popleft_n (Suc n) [] = Inl IndexError"
| "popleft_n (Suc n) (x # buf) =
     (case popleft_n n buf of
        Inl e \<Rightarrow> Inl e
      | Inr (ys, rest) \<Rightarrow> Inr (x # ys, rest))"

text \<open>\<^verbatim>\<open>read\<close> returns the outcome and the buffer afterwards.  An \<^verbatim>\<open>IndexError\<close> would
  leave the deque drained.\<close>

definition AudioBuffer_read :: "AudioBuffer \<Rightarrow> int \<Rightarrow> (error + real list) \<times> AudioBuffer" where
  "AudioBuffer_read b frames =
     (if int (length (ab_buffer b)) < frames then (Inr (replicate (nat frames) 0), b)
      else (case popleft_n (nat frames) (ab_buffer b) of
              Inl e \<Rightarrow> (Inl e, b\<lparr>ab_buffer := []\<rparr>)
            | Inr (ys, rest) \<Rightarrow> (Inr ys, b\<lparr>ab_buffer := rest\<rparr>)))"

definition AudioBuffer_clear :: "AudioBuffer \<Rightarrow> AudioBuffer" where
  "AudioBuffer_clear b = b\<lparr>ab_buffer := []\<rparr>"

section \<open>Python and numpy primitives\<close>

text \<open>\<^verbatim>\<open>int(x)\<close> on a float truncates toward zero.\<close>

definition py_int :: "real \<Rightarrow> int" where
  "py_int x = (if 0 \<le> x then \<lfloor>x\<rfloor> else \<lceil>x\<rceil>)"

text \<open>Python floats are IEEE binary64 numbers.  \<open>fl x\<close> is the double nearest to \<open>x\<close>:
  with \<open>2\<^sup>e \<le> \<bar>x\<bar> < 2\<^bsup>e+1\<^esup>\<close> the doubles around \<open>x\<close> are the multiples of \<open>2\<^bsup>e-52\<^esup>\<close>, and a
  tie goes to the even multiple.  This is the normal range of the format; overflow to
  infinity and subnormal numbers are not modelled.\<close>

definition round_half_even :: "real \<Rightarrow> int" where
  "round_half_even y =
     (let n = \<lfloor>y\<rfloor>; r = y - of_int n
      in if r < 1 / 2 then n else if r > 1 / 2 then n + 1 else if even n then n else n + 1)"

definition fl :: "real \<Rightarrow> real" where
  "fl x =
     (if x = 0 then 0
      else (let ulp = 2 powr (of_int \<lfloor>log 2 \<bar>x\<bar>\<rfloor> - 52)
            in of_int (round_half_even (x / ulp)) * ulp))"

text \<open>The float product \<^verbatim>\<open>x * y\<close>: both operands are doubles (a real that is not one is
  read as the double nearest to it, as a literal is, and an integer operand is converted),
  and the exact product is rounded to a double.\<close>

definition float_mul :: "real \<Rightarrow> real \<Rightarrow> real" where
  "float_mul x y = fl (fl x * fl y)"

text \<open>\<^verbatim>\<open>np.arange(n)\<close>: the indices \<open>0, ..., n - 1\<close>; empty when \<open>n \<le> 0\<close>.\<close>

definition np_arange :: "int \<Rightarrow> real list" where
  "np_arange n = map real [0..<nat n]"

text \<open>\<^verbatim>\<open>np.linspace(a, b, n)\<close>: \<open>n\<close> evenly spaced points from \<open>a\<close> to \<open>b\<close>, both included;
  the single point \<open>a\<close> when \<open>n = 1\<close>.\<close>

definition np_linspace :: "real \<Rightarrow> real \<Rightarrow> int \<Rightarrow> real list" where
  "np_linspace a b n =
     (if n = 1 then [a]
      else map (\<lambda>i. a + real i * ((b - a) / real_of_int (n - 1))) [0..<nat n])"


definition np_full :: "int \<Rightarrow> real \<Rightarrow> real list" where
  "np_full n v = replicate (nat n) v"

text \<open>\<^verbatim>\<open>np.max\<close> has no value on an empty array.\<close>

definition np_max :: "real list \<Rightarrow> error + real" where
  "np_max xs = (case xs of [] \<Rightarrow> Inl ZeroSizeReduction | x # ys \<Rightarrow> Inr (fold max ys x))"

text \<open>\<^verbatim>\<open>np.concatenate\<close> of a list of arrays needs at least one array.\<close>

definition np_concatenate :: "real list list \<Rightarrow> error + real list" where
  "np_concatenate segs = (if segs = [] then Inl NeedAtLeastOneArray else Inr (concat segs))"

section \<open>InstrumentSynthesizer\<close>

record synth_parameters =
  attack :: real
  decay :: real
  sustain :: real
  release :: real
  cutoff :: real
  resonance :: real

record InstrumentSynthesizer =
  syn_sample_rate :: int
  instrument_type :: string
  parameters :: synth_parameters

definition InstrumentSynthesizer_init :: "int \<Rightarrow> InstrumentSynthesizer" where
  "InstrumentSynthesizer_init sr =
     \<lparr>syn_sample_rate = sr, instrument_type = ''synth'',
      parameters = \<lparr>attack = 1 / 100, decay = 1 / 10, sustain = 7 / 10, release = 3 / 10,
                    cutoff = 1000, resonance = 1 / 2\<rparr>\<rparr>"

definition envelope_adsr :: "InstrumentSynthesizer \<Rightarrow> int \<Rightarrow> real \<Rightarrow> real list" where
  "envelope_adsr syn len duration =
     (let attack_len = py_int (float_mul (attack (parameters syn))
                                 (real_of_int (syn_sample_rate syn)));
          decay_len = py_int (float_mul (decay (parameters syn))
                                (real_of_int (syn_sample_rate syn)));
          release_len = py_int (float_mul (release (parameters syn))
                                  (real_of_int (syn_sample_rate syn)));
          sustain_len = len - attack_len - decay_len - release_len;
          envelope = np_linspace 0 1 (max 1 attack_len)
                     @ np_linspace 1 (sustain (parameters syn)) (max 1 decay_len)
                     @ np_full (max 0 sustain_len) (sustain (parameters syn))
                     @ np_linspace (sustain (parameters syn)) 0 (max 1 release_len)
      in take (nat len) envelope)"

text \<open>The raw waveform at the sample times; an unknown kind falls back to the sine.\<close>

definition waveform_signal :: "string \<Rightarrow> real \<Rightarrow> real list \<Rightarrow> real list" where
  "waveform_signal waveform frequency samples =
     (if waveform = ''sine'' then map (\<lambda>t. sin (2 * pi * frequency * t)) samples
      else if waveform = ''square'' then map (\<lambda>t. sgn (sin (2 * pi * frequency * t))) samples
      else if waveform = ''sawtooth'' then
        map (\<lambda>t. 2 * (t * frequency - of_int \<lfloor>t * frequency + 1 / 2\<rfloor>)) samples
      else if waveform = ''triangle'' then
        map (\<lambda>t. 4 * \<bar>(t * frequency - of_int \<lfloor>t * frequency + 3 / 4\<rfloor>) - 1 / 2\<bar> - 1) samples
      else map (\<lambda>t. sin (2 * pi * frequency * t)) samples)"

text \<open>\<^verbatim>\<open>signal * envelope * 0.3\<close>: the two arrays have the same length
  (lemma \<open>length_envelope_adsr\<close>), so the product is taken sample by sample.\<close>

definition synthesize_note :: "InstrumentSynthesizer \<Rightarrow> real \<Rightarrow> real \<Rightarrow> string \<Rightarrow> real list" where
  "synthesize_note syn frequency duration waveform =
     (let samples = map (\<lambda>k. k / real_of_int (syn_sample_rate syn))
                        (np_arange (py_int (float_mul (real_of_int (syn_sample_rate syn)) duration)));
          signal = waveform_signal waveform frequency samples;
          envelope = envelope_adsr syn (int (length signal)) duration
      in map (\<lambda>v. v * (3 / 10)) (map2 (*) signal envelope))"

section \<open>EffectsProcessor\<close>

record EffectsProcessor =
  ep_sample_rate :: int




definition normalize_audio :: "EffectsProcessor \<Rightarrow> real list \<Rightarrow> real \<Rightarrow> error + real list" where
  "normalize_audio ep audio target =
     (case np_max (map abs audio) of
        Inl e \<Rightarrow> Inl e
      | Inr peak \<Rightarrow> if peak > 0 then Inr (map (\<lambda>x. x * (target / peak)) audio) else Inr audio)"

section \<open>LiveMusicStudio\<close>

text \<open>Keyword arguments of an effect: a dictionary from parameter name to number.\<close>

type_synonym kwargs = "string \<rightharpoonup> real"


record track_params =
  tp_name :: string
  muted :: bool
  volume :: real
  pan :: real
  effects :: "string \<rightharpoonup> kwargs"


text \<open>The three track dictionaries keep their insertion order (association lists, updated in
  place by \<open>AList.update\<close>): \<^verbatim>\<open>mix\<close> walks \<^verbatim>\<open>tracks\<close> in that order.  The field
  \<open>effects_processor\<close> is \<^verbatim>\<open>self.effects\<close>.\<close>

record LiveMusicStudio =
  sample_rate :: int
  num_tracks :: int
  is_recording :: bool
  is_playing :: bool
  tracks :: "(string \<times> real list) list"
  track_buffers :: "(string \<times> AudioBuffer) list"
  track_parameters :: "(string \<times> track_params) list"
  synthesizer :: InstrumentSynthesizer
  effects_processor :: EffectsProcessor
  master_volume :: real
  tempo :: int
  time_signature :: "int \<times> int"

text \<open>The decimal numeral of a track index, for \<^verbatim>\<open>f"track_{i}"\<close>.\<close>

fun str_nat :: "nat \<Rightarrow> string" where
  "str_nat n =
     (if n < 10 then [''0123456789'' ! n]
      else str_nat (n div 10) @ [''0123456789'' ! (n mod 10)])"

declare str_nat.simps [simp del]

definition initialize_track :: "LiveMusicStudio \<Rightarrow> nat \<Rightarrow> LiveMusicStudio" where
  "initialize_track s i =
     (let track_name = ''track_'' @ str_nat i in
      s\<lparr>tracks := AList.update track_name [] (tracks s),
        track_buffers := AList.update track_name
          \<lparr>ab_sample_rate = sample_rate s, ab_channels = 1, ab_max_size = 44100, ab_buffer = []\<rparr>
          (track_buffers s),
        track_parameters := AList.update track_name
          \<lparr>tp_name = track_name, muted = False, volume = 1, pan = 0, effects = Map.empty\<rparr>
          (track_parameters s)\<rparr>)"

definition initialize_tracks :: "LiveMusicStudio \<Rightarrow> LiveMusicStudio" where
  "initialize_tracks s = foldl initialize_track s [0..<nat (num_tracks s)]"

definition LiveMusicStudio_init :: "int \<Rightarrow> int \<Rightarrow> LiveMusicStudio" where
  "LiveMusicStudio_init sr n =
     initialize_tracks
       \<lparr>sample_rate = sr, num_tracks = n, is_recording = False, is_playing = False,
        tracks = [], track_buffers = [], track_parameters = [],
        synthesizer = InstrumentSynthesizer_init sr,
        effects_processor = \<lparr>ep_sample_rate = sr\<rparr>,
        master_volume = 1, tempo = 120, time_signature = (4, 4)\<rparr>"

text \<open>Each operation returns the exception it raised, if any, and the studio as it is then.\<close>

definition record_track ::
  "LiveMusicStudio \<Rightarrow> string \<Rightarrow> real list \<Rightarrow> error option \<times> LiveMusicStudio" where
  "record_track s track_name audio =
     (if map_of (tracks s) track_name = None then (Some (TrackNotFound track_name), s)
      else (None, s\<lparr>tracks := AList.update track_name audio (tracks s)\<rparr>))"

definition generate_track ::
  "LiveMusicStudio \<Rightarrow> string \<Rightarrow> (real \<times> real) list \<Rightarrow> string
     \<Rightarrow> (error + real list) \<times> LiveMusicStudio" where
  "generate_track s track_name notes waveform =
     (let audio_segments =
            map (\<lambda>(freq, duration). synthesize_note (synthesizer s) freq duration waveform) notes
      in case np_concatenate audio_segments of
           Inl e \<Rightarrow> (Inl e, s)
         | Inr track_audio \<Rightarrow>
             (case record_track s track_name track_audio of
                (Some e, s') \<Rightarrow> (Inl e, s')
              | (None, s') \<Rightarrow> (Inr track_audio, s')))"


definition set_track_volume ::
  "LiveMusicStudio \<Rightarrow> string \<Rightarrow> real \<Rightarrow> error option \<times> LiveMusicStudio" where
  "set_track_volume s track_name vol =
     (case map_of (tracks s) track_name of
        None \<Rightarrow> (Some (TrackNotFound track_name), s)
      | Some audio \<Rightarrow>
          (let vol' = max 0 (min 1 vol);
               s1 = s\<lparr>tracks := AList.update track_name (map (\<lambda>x. x * vol') audio) (tracks s)\<rparr>
           in case map_of (track_parameters s1) track_name of
                None \<Rightarrow> (Some (KeyError track_name), s1)
              | Some p \<Rightarrow>
                  (None, s1\<lparr>track_parameters :=
                              AList.update track_name (p\<lparr>volume := vol'\<rparr>)
                                (track_parameters s1)\<rparr>)))"








definition set_tempo :: "LiveMusicStudio \<Rightarrow> int \<Rightarrow> LiveMusicStudio" where
  "set_tempo s bpm = s\<lparr>tempo := bpm\<rparr>"

definition set_time_signature :: "LiveMusicStudio \<Rightarrow> int \<Rightarrow> int \<Rightarrow> LiveMusicStudio" where
  "set_time_signature s numerator denominator = s\<lparr>time_signature := (numerator, denominator)\<rparr>"



text \<open>A studio is well formed when its two dictionaries have the same keys, in the same
  order and without repetition, as the constructor leaves them and every operation keeps them.\<close>

definition studio_ok :: "LiveMusicStudio \<Rightarrow> bool" where
  "studio_ok s \<longleftrightarrow>
     map fst (track_parameters s) = map fst (tracks s) \<and> distinct (map fst (tracks s))"

section \<open>Properties of the buffer\<close>

lemma popleft_n_take_drop:
  "n \<le> length buf \<Longrightarrow> popleft_n n buf = Inr (take n buf, drop n buf)"
  by (induction n buf rule: popleft_n.induct) auto

text \<open>
  Claim C3.  When fewer than \<open>frames\<close> samples are buffered, \<open>AudioBuffer_read\<close> returns exactly
  \<open>frames\<close> zeros and leaves the buffer as it was; otherwise it returns the \<open>frames\<close>
  oldest samples, in the order they were queued, and removes exactly those from the
  front of the buffer.
\<close>

theorem read_zero_fill_or_fifo:
  "(int (length (ab_buffer b)) < frames \<longrightarrow>
      AudioBuffer_read b frames = (Inr (replicate (nat frames) 0), b))
   \<and> (\<not> int (length (ab_buffer b)) < frames \<longrightarrow>
      AudioBuffer_read b frames = (Inr (take (nat frames) (ab_buffer b)),
                       b\<lparr>ab_buffer := drop (nat frames) (ab_buffer b)\<rparr>)
      \<and> length (take (nat frames) (ab_buffer b)) = nat frames)"
  by (auto simp: AudioBuffer_read_def popleft_n_take_drop)

theorem read_zero_fill_or_fifo_witness:
  "AudioBuffer_read \<lparr>ab_sample_rate = 44100, ab_channels = 1, ab_max_size = 44100,
                     ab_buffer = [1, 2, 3]\<rparr> 5
     = (Inr [0, 0, 0, 0, 0],
        \<lparr>ab_sample_rate = 44100, ab_channels = 1, ab_max_size = 44100, ab_buffer = [1, 2, 3]\<rparr>)
   \<and> AudioBuffer_read \<lparr>ab_sample_rate = 44100, ab_channels = 1, ab_max_size = 44100,
                       ab_buffer = [1, 2, 3]\<rparr> 2
     = (Inr [1, 2],
        \<lparr>ab_sample_rate = 44100, ab_channels = 1, ab_max_size = 44100, ab_buffer = [3]\<rparr>)"
  using read_zero_fill_or_fifo
          [of "\<lparr>ab_sample_rate = 44100, ab_channels = 1, ab_max_size = 44100,
                 ab_buffer = [1, 2, 3]\<rparr>" 5]
        read_zero_fill_or_fifo
          [of "\<lparr>ab_sample_rate = 44100, ab_channels = 1, ab_max_size = 44100,
                 ab_buffer = [1, 2, 3]\<rparr>" 2]
  by (simp add: numeral_eq_Suc)

section \<open>Properties of the synthesizer\<close>

lemma length_np_linspace: "1 \<le> n \<Longrightarrow> length (np_linspace a b n) = nat n"
  by (simp add: np_linspace_def)

lemma adsr_segments_cover:
  fixes a d r len :: int
  shows "nat len \<le> nat (max 1 a) + nat (max 1 d) + nat (max 0 (len - a - d - r)) + nat (max 1 r)"
  by (cases "0 \<le> len - a - d - r") (simp_all add: max_def, linarith+)

lemma length_envelope_adsr: "length (envelope_adsr syn len duration) = nat len"
proof -
  define a where
    "a = py_int (float_mul (attack (parameters syn)) (real_of_int (syn_sample_rate syn)))"
  define d where
    "d = py_int (float_mul (decay (parameters syn)) (real_of_int (syn_sample_rate syn)))"
  define r where
    "r = py_int (float_mul (release (parameters syn)) (real_of_int (syn_sample_rate syn)))"
  define env where "env = np_linspace 0 1 (max 1 a)
                     @ np_linspace 1 (sustain (parameters syn)) (max 1 d)
                     @ np_full (max 0 (len - a - d - r)) (sustain (parameters syn))
                     @ np_linspace (sustain (parameters syn)) 0 (max 1 r)"
  have "length env = nat (max 1 a) + nat (max 1 d) + nat (max 0 (len - a - d - r)) + nat (max 1 r)"
    by (simp add: env_def length_np_linspace np_full_def)
  with adsr_segments_cover [of len a d r] have "nat len \<le> length env"
    by simp
  moreover have "envelope_adsr syn len duration = take (nat len) env"
    by (simp only: envelope_adsr_def Let_def env_def a_def d_def r_def)
  ultimately show ?thesis
    by (simp only: length_take min.absorb2)
qed

lemma length_waveform_signal: "length (waveform_signal w f ts) = length ts"
  by (simp add: waveform_signal_def)

text \<open>Evaluating \<open>fl\<close> once the binade of the argument is known.\<close>

lemma fl_binade:
  assumes "2 powr of_int e \<le> \<bar>x\<bar>" "\<bar>x\<bar> < 2 powr (of_int e + 1)"
  shows "fl x = of_int (round_half_even (x / 2 powr (of_int e - 52))) * 2 powr (of_int e - 52)"
proof -
  from assms(1) have pos: "0 < \<bar>x\<bar>"
    by (smt (verit) powr_gt_zero)
  then have nz: "x \<noteq> 0" by simp
  have "\<lfloor>log 2 \<bar>x\<bar>\<rfloor> = e"
    using assms pos by (subst floor_log_eq_powr_iff) simp_all
  with nz show ?thesis
    by (simp add: fl_def Let_def)
qed

lemma powr_neg_nat: "(2::real) powr (- real k) = 1 / 2 ^ k"
  by (simp add: powr_minus powr_realpow divide_simps)

lemma fl_eval_neg:
  assumes "1 / 2 ^ k \<le> \<bar>x\<bar>" "\<bar>x\<bar> < 2 / 2 ^ k"
  shows "fl x = of_int (round_half_even (x * 2 ^ (k + 52))) / 2 ^ (k + 52)"
proof -
  have a: "2 powr of_int (- int k) \<le> \<bar>x\<bar>"
    using assms(1) by (simp add: powr_neg_nat)
  have "(2::real) powr (- real k + 1) = 2 powr (- real k) * 2 powr 1"
    by (rule powr_add)
  then have "(2::real) powr (of_int (- int k) + 1) = 2 * 2 powr (- real k)"
    by simp
  with assms(2) have b: "\<bar>x\<bar> < 2 powr (of_int (- int k) + 1)"
    by (simp add: powr_neg_nat)
  have u: "(2::real) powr (of_int (- int k) - 52) = 1 / 2 ^ (k + 52)"
    using powr_neg_nat [of "k + 52"] by simp
  show ?thesis
    by (simp only: fl_binade [OF a b] u) simp
qed

lemma fl_eval_pos:
  assumes "2 ^ k \<le> \<bar>x\<bar>" "\<bar>x\<bar> < 2 * 2 ^ k" "k \<le> 52"
  shows "fl x = of_int (round_half_even (x * 2 ^ (52 - k))) / 2 ^ (52 - k)"
proof -
  have a: "2 powr of_int (int k) \<le> \<bar>x\<bar>"
    using assms(1) by (simp add: powr_realpow)
  have "(2::real) powr (of_int (int k) + 1) = 2 * 2 ^ k"
    by (simp add: powr_add powr_realpow)
  with assms(2) have b: "\<bar>x\<bar> < 2 powr (of_int (int k) + 1)"
    by simp
  have "(2::real) powr (of_int (int k) - 52) = 2 powr (- real (52 - k))"
    using assms(3) by (simp add: of_nat_diff)
  then have u: "(2::real) powr (of_int (int k) - 52) = 1 / 2 ^ (52 - k)"
    by (simp only: powr_neg_nat)
  show ?thesis
    by (simp only: fl_binade [OF a b] u) simp
qed

lemma fl_1: "fl 1 = 1"
  by (subst fl_eval_pos [where k = 0]) (simp_all add: round_half_even_def Let_def)

lemma fl_3: "fl 3 = 3"
  by (subst fl_eval_pos [where k = 1]) (simp_all add: round_half_even_def Let_def)

lemma fl_100: "fl 100 = 100"
  by (subst fl_eval_pos [where k = 6]) (simp_all add: round_half_even_def Let_def)

lemma fl_44100: "fl 44100 = 44100"
  by (subst fl_eval_pos [where k = 15]) (simp_all add: round_half_even_def Let_def)

lemma fl_029: "fl (29 / 100) = 5224175567749775 / 2 ^ 54"
  by (subst fl_eval_neg [where k = 2]) (simp_all add: round_half_even_def Let_def)

lemma fl_07: "fl (7 / 10) = 3152519739159347 / 2 ^ 52"
  by (subst fl_eval_neg [where k = 1]) (simp_all add: round_half_even_def Let_def)

lemma fl_third: "fl (1 / 3) = 6004799503160661 / 2 ^ 54"
  by (subst fl_eval_neg [where k = 2]) (simp_all add: round_half_even_def Let_def)

lemma fl_000002: "fl (1 / 50000) = 5902958103587057 / 2 ^ 68"
  by (subst fl_eval_neg [where k = 16]) (simp_all add: round_half_even_def Let_def)

lemma samples_100_029: "py_int (float_mul 100 (29 / 100)) = 28"
  unfolding float_mul_def fl_100 fl_029
  by (subst fl_eval_pos [where k = 4]) (simp_all add: round_half_even_def Let_def py_int_def)

lemma samples_44100_07: "py_int (float_mul 44100 (7 / 10)) = 30869"
  unfolding float_mul_def fl_44100 fl_07
  by (subst fl_eval_pos [where k = 14]) (simp_all add: round_half_even_def Let_def py_int_def)

lemma samples_3_third: "py_int (float_mul 3 (1 / 3)) = 1"
  unfolding float_mul_def fl_3 fl_third
  by (subst fl_eval_neg [where k = 1]) (simp_all add: round_half_even_def Let_def py_int_def)

lemma samples_44100_000002: "py_int (float_mul 44100 (1 / 50000)) = 0"
  unfolding float_mul_def fl_44100 fl_000002
  by (subst fl_eval_neg [where k = 1]) (simp_all add: round_half_even_def Let_def py_int_def)

lemma samples_44100_1: "py_int (float_mul 44100 1) = 44100"
  unfolding float_mul_def fl_44100 fl_1
  by (simp add: fl_44100 py_int_def)

text \<open>
  Claim C2, as amended.  Synthesizing one note produces exactly \<open>int(sampleRate * d)\<close>
  samples, where \<open>*\<close> is the float product: the double nearest to the product, truncated
  toward zero (its floor when it is positive), not the product rounded to the nearest
  integer.
\<close>

theorem synthesize_note_length:
  "length (synthesize_note syn f d w)
     = nat (py_int (float_mul (real_of_int (syn_sample_rate syn)) d))"
  by (simp add: synthesize_note_def Let_def length_envelope_adsr length_waveform_signal
      np_arange_def)

text \<open>At 44100 Hz a note of 0.00002 s has \<open>int(0.882) = 0\<close> samples, while
  \<open>round(0.882) = 1\<close>.\<close>

theorem synthesize_note_length_counterexample:
  "(440::real) > 0 \<and> (1 / 50000 :: real) > 0
   \<and> int (length (synthesize_note (InstrumentSynthesizer_init 44100) 440 (1 / 50000) ''sine''))
       \<noteq> round ((1 / 50000 :: real) * real_of_int 44100)"
  by (simp add: synthesize_note_def Let_def length_envelope_adsr length_waveform_signal
      np_arange_def InstrumentSynthesizer_init_def samples_44100_000002 round_def)

text \<open>Instances of \<open>synthesize_note_length\<close>: one second at 44100 Hz is 44100 samples;
  0.29 s at 100 Hz is 28 samples and 0.7 s at 44100 Hz is 30869, one fewer than the exact
  products 29 and 30870, because the doubles nearest 0.29 and 0.7 lie below them; and a
  third of a second at 3 Hz is one sample, because the float product rounds up to 1.\<close>

theorem synthesize_note_length_witness:
  "length (synthesize_note (InstrumentSynthesizer_init 44100) 440 1 ''sine'') = 44100
   \<and> length (synthesize_note (InstrumentSynthesizer_init 100) 440 (29 / 100) ''sine'') = 28
   \<and> length (synthesize_note (InstrumentSynthesizer_init 44100) 440 (7 / 10) ''sine'') = 30869
   \<and> length (synthesize_note (InstrumentSynthesizer_init 3) 440 (1 / 3) ''sine'') = 1"
  using synthesize_note_length [of "InstrumentSynthesizer_init 44100" 440 1 "''sine''"]
        synthesize_note_length [of "InstrumentSynthesizer_init 100" 440 "29 / 100" "''sine''"]
        synthesize_note_length [of "InstrumentSynthesizer_init 44100" 440 "7 / 10" "''sine''"]
        synthesize_note_length [of "InstrumentSynthesizer_init 3" 440 "1 / 3" "''sine''"]
  by (simp add: InstrumentSynthesizer_init_def samples_44100_1 samples_100_029
      samples_44100_07 samples_3_third)

section \<open>Properties of the effects\<close>







lemma np_max_Max:
  assumes "xs \<noteq> []"
  shows "np_max xs = Inr (Max (set xs))"
proof (cases xs)
  case Nil
  with assms show ?thesis by simp
next
  case (Cons x ys)
  have "fold max ys x = Max (set (x # ys))"
    by (rule Max.set_eq_fold [symmetric])
  with Cons show ?thesis
    by (simp only: np_max_def list.case)
qed

lemma Max_scale:
  fixes k :: real
  assumes "0 \<le> k" "xs \<noteq> []"
  shows "Max (set (map (\<lambda>a. a * k) xs)) = Max (set xs) * k"
proof -
  have "mono (\<lambda>a::real. a * k)"
    using assms(1) by (simp add: mono_def mult_right_mono)
  from mono_Max_commute [OF this, of "set xs"] assms(2) show ?thesis
    by simp
qed

lemma peak_pos:
  assumes "\<exists>x\<in>set audio. x \<noteq> (0::real)"
  shows "0 < Max (set (map abs audio))"
proof -
  from assms obtain x where x: "x \<in> set audio" "x \<noteq> 0" by blast
  then have "\<bar>x\<bar> \<le> Max (set (map abs audio))" by simp
  with x(2) show ?thesis by simp
qed

lemma peak_zero:
  assumes "audio \<noteq> []" "\<forall>x\<in>set audio. x = (0::real)"
  shows "Max (set (map abs audio)) = 0"
proof -
  from assms have "set (map abs audio) = {0}" by (cases audio) auto
  then show ?thesis by simp
qed

text \<open>
  Claim C7, as amended.  On an input with at least one non-zero sample \<open>normalize_audio\<close>
  returns a sequence of the same length whose peak absolute value is \<open>\<bar>target\<bar>\<close>, that
  is \<open>target\<close> itself for the non-negative targets a peak level can be; on a non-empty
  all-zero input it returns the input unchanged.
\<close>

theorem normalize_audio_peak:
  "((\<exists>x\<in>set audio. x \<noteq> 0) \<longrightarrow>
      (\<exists>y. normalize_audio ep audio target = Inr y \<and> length y = length audio
           \<and> np_max (map abs y) = Inr \<bar>target\<bar>))
   \<and> (audio \<noteq> [] \<and> (\<forall>x\<in>set audio. x = 0) \<longrightarrow> normalize_audio ep audio target = Inr audio)"
proof (intro conjI impI)
  assume nz: "\<exists>x\<in>set audio. x \<noteq> 0"
  then have ne: "audio \<noteq> []" by auto
  define peak where "peak = Max (set (map abs audio))"
  have pos: "0 < peak" unfolding peak_def by (rule peak_pos [OF nz])
  define y where "y = map (\<lambda>x. x * (target / peak)) audio"
  have res: "normalize_audio ep audio target = Inr y"
    using ne pos by (simp add: normalize_audio_def np_max_Max peak_def y_def)
  define k where "k = \<bar>target / peak\<bar>"
  have k: "0 \<le> k" by (simp add: k_def)
  have "map abs y = map (\<lambda>a. a * k) (map abs audio)"
    by (simp add: y_def k_def abs_mult)
  moreover have "Max (set (map (\<lambda>a. a * k) (map abs audio))) = peak * k"
    unfolding peak_def using ne by (subst Max_scale [OF k]) simp_all
  ultimately have "Max (set (map abs y)) = peak * k"
    by (simp only:)
  also have "\<dots> = \<bar>target\<bar>" using pos by (simp add: k_def)
  finally have "np_max (map abs y) = Inr \<bar>target\<bar>"
    using ne by (simp add: np_max_Max y_def)
  with res show "\<exists>y. normalize_audio ep audio target = Inr y \<and> length y = length audio
           \<and> np_max (map abs y) = Inr \<bar>target\<bar>"
    by (simp add: y_def)
next
  assume "audio \<noteq> [] \<and> (\<forall>x\<in>set audio. x = 0)"
  then have ne: "audio \<noteq> []" and z: "\<forall>x\<in>set audio. x = 0"
    by simp_all
  from ne have "np_max (map abs audio) = Inr (Max (set (map abs audio)))"
    by (intro np_max_Max) simp
  with peak_zero [OF ne z] have "np_max (map abs audio) = Inr 0"
    by (simp only:)
  then show "normalize_audio ep audio target = Inr audio"
    by (simp add: normalize_audio_def)
qed

theorem normalize_audio_peak_witness:
  "(\<exists>y. normalize_audio \<lparr>ep_sample_rate = 44100\<rparr> [1 / 2, - 2, 1] (9 / 10) = Inr y
        \<and> length y = length [1 / 2, - 2, 1 :: real]
        \<and> np_max (map abs y) = Inr (9 / 10))
   \<and> normalize_audio \<lparr>ep_sample_rate = 44100\<rparr> [0, 0] (9 / 10) = Inr [0, 0]"
  using normalize_audio_peak [of "[1 / 2, - 2, 1]" "\<lparr>ep_sample_rate = 44100\<rparr>" "9 / 10"]
        normalize_audio_peak [of "[0, 0]" "\<lparr>ep_sample_rate = 44100\<rparr>" "9 / 10"]
  by simp

text \<open>The empty sequence is all-zero, yet \<^verbatim>\<open>np.max\<close> has no value on it; and a negative
  target gives the peak \<open>1\<close>, not \<open>-1\<close>.\<close>

theorem normalize_audio_peak_counterexample:
  "normalize_audio \<lparr>ep_sample_rate = 44100\<rparr> [] (9 / 10) = Inl ZeroSizeReduction
   \<and> normalize_audio \<lparr>ep_sample_rate = 44100\<rparr> [1] (- 1) = Inr [- 1]
   \<and> np_max (map abs [- 1]) = Inr 1"
  by (simp add: normalize_audio_def np_max_def)

section \<open>Properties of the studio\<close>

lemma keys_update_known:
  "map_of al k = Some v \<Longrightarrow> map fst (AList.update k w al) = map fst al"
  by (simp add: AList.update_keys) (metis map_of_SomeD fst_conv image_iff)

lemma studio_ok_keys:
  assumes "studio_ok s"
  shows "fst ` set (track_parameters s) = fst ` set (tracks s)"
proof -
  from assms have "set (map fst (track_parameters s)) = set (map fst (tracks s))"
    by (simp only: studio_ok_def)
  then show ?thesis
    by (simp only: set_map)
qed

lemma params_None_iff:
  "studio_ok s \<Longrightarrow> map_of (track_parameters s) n = None \<longleftrightarrow> map_of (tracks s) n = None"
  by (simp only: map_of_eq_None_iff studio_ok_keys)

lemma known_in_params:
  assumes "studio_ok s" "map_of (tracks s) n = Some audio"
  shows "\<exists>p. map_of (track_parameters s) n = Some p"
proof -
  from assms(2) have "map_of (tracks s) n \<noteq> None" by simp
  with params_None_iff [OF assms(1)] have "map_of (track_parameters s) n \<noteq> None"
    by simp
  then show ?thesis by blast
qed

lemma studio_ok_update_tracks:
  "studio_ok s \<Longrightarrow> map_of (tracks s) n = Some a \<Longrightarrow>
   studio_ok (s\<lparr>tracks := AList.update n b (tracks s)\<rparr>)"
  by (simp add: studio_ok_def keys_update_known)

lemma studio_ok_update_params:
  "studio_ok s \<Longrightarrow> map_of (track_parameters s) n = Some p \<Longrightarrow>
   studio_ok (s\<lparr>track_parameters := AList.update n q (track_parameters s)\<rparr>)"
  by (simp add: studio_ok_def keys_update_known)

lemma studio_ok_initialize_track: "studio_ok s \<Longrightarrow> studio_ok (initialize_track s i)"
  by (simp add: studio_ok_def initialize_track_def Let_def AList.update_keys AList.distinct_update)

lemma studio_ok_foldl_initialize:
  "studio_ok s \<Longrightarrow> studio_ok (foldl initialize_track s is)"
  by (induction "is" arbitrary: s) (simp_all add: studio_ok_initialize_track)

lemma studio_ok_init: "studio_ok (LiveMusicStudio_init sr n)"
  unfolding LiveMusicStudio_init_def initialize_tracks_def
  by (rule studio_ok_foldl_initialize) (simp add: studio_ok_def)

lemma set_track_volume_result:
  assumes "map_of (tracks s) n = Some audio" "map_of (track_parameters s) n = Some p"
  shows "set_track_volume s n v =
    (None, s\<lparr>tracks := AList.update n (map (\<lambda>x. x * max 0 (min 1 v)) audio) (tracks s),
             track_parameters := AList.update n (p\<lparr>volume := max 0 (min 1 v)\<rparr>)
                                   (track_parameters s)\<rparr>)"
  using assms by (simp add: set_track_volume_def Let_def)



text \<open>
  Claim C4.  On a known track \<open>set_track_volume\<close> clamps the volume to \<open>[0, 1]\<close>, multiplies
  the stored samples by the clamped value and stores that value as the track's volume.
  The scaling acts on the samples as they are, so two calls compound: after two calls
  with \<open>0.5\<close> on a track of ones every sample is \<open>0.25\<close>.
\<close>

theorem set_track_volume_clamps_and_compounds:
  assumes "studio_ok s" and "map_of (tracks s) n = Some audio"
  shows "0 \<le> max 0 (min 1 v) \<and> max 0 (min 1 v) \<le> 1
    \<and> fst (set_track_volume s n v) = None
    \<and> map_of (tracks (snd (set_track_volume s n v))) n
          = Some (map (\<lambda>x. x * max 0 (min 1 v)) audio)
    \<and> (\<exists>p. map_of (track_parameters (snd (set_track_volume s n v))) n = Some p
           \<and> volume p = max 0 (min 1 v))
    \<and> studio_ok (snd (set_track_volume s n v))
    \<and> ((\<forall>x\<in>set audio. x = 1) \<longrightarrow>
          map_of (tracks (snd (set_track_volume (snd (set_track_volume s n (1 / 2))) n (1 / 2)))) n
            = Some (replicate (length audio) (1 / 4)))"
proof -
  from known_in_params [OF assms] obtain p where p: "map_of (track_parameters s) n = Some p"
    by blast
  have step: "\<And>w. set_track_volume s n w =
      (None, s\<lparr>tracks := AList.update n (map (\<lambda>x. x * max 0 (min 1 w)) audio) (tracks s),
               track_parameters := AList.update n (p\<lparr>volume := max 0 (min 1 w)\<rparr>)
                                     (track_parameters s)\<rparr>)"
    by (rule set_track_volume_result [OF assms(2) p])
  have ok: "\<And>w. studio_ok (snd (set_track_volume s n w))"
    using assms p by (simp add: step studio_ok_def keys_update_known)
  have tr: "\<And>w. map_of (tracks (snd (set_track_volume s n w))) n
               = Some (map (\<lambda>x. x * max 0 (min 1 w)) audio)"
    by (simp add: step AList.update_conv')
  have pa: "\<And>w. map_of (track_parameters (snd (set_track_volume s n w))) n
               = Some (p\<lparr>volume := max 0 (min 1 w)\<rparr>)"
    by (simp add: step AList.update_conv')
  have twice: "map_of (tracks (snd (set_track_volume (snd (set_track_volume s n (1 / 2))) n (1 / 2)))) n
            = Some (replicate (length audio) (1 / 4))" if ones: "\<forall>x\<in>set audio. x = 1"
  proof -
    from ones have a: "audio = replicate (length audio) 1"
      by (simp add: replicate_length_same)
    define s1 where "s1 = snd (set_track_volume s n (1 / 2))"
    have ok1: "studio_ok s1" unfolding s1_def by (rule ok)
    have tr1: "map_of (tracks s1) n = Some (map (\<lambda>x. x * max 0 (min 1 (1 / 2))) audio)"
      unfolding s1_def by (rule tr)
    from known_in_params [OF ok1 tr1] obtain q where q: "map_of (track_parameters s1) n = Some q"
      by blast
    have "map_of (tracks (snd (set_track_volume s1 n (1 / 2)))) n
          = Some (map (\<lambda>x. x * max 0 (min 1 (1 / 2)))
                   (map (\<lambda>x. x * max 0 (min 1 (1 / 2))) audio))"
      by (simp add: set_track_volume_result [OF tr1 q] AList.update_conv')
    also have "map (\<lambda>x. x * max 0 (min 1 (1 / 2))) (map (\<lambda>x. x * max 0 (min 1 (1 / 2))) audio)
               = replicate (length audio) (1 / 4 :: real)"
      by (subst a) (simp add: map_replicate)
    finally show ?thesis unfolding s1_def .
  qed
  show ?thesis
    using ok tr pa twice by (simp add: step)
qed


lemma tracks_init_2: "tracks (LiveMusicStudio_init 44100 2) = [(''track_0'', []), (''track_1'', [])]"
  by (simp add: LiveMusicStudio_init_def initialize_tracks_def initialize_track_def Let_def
      str_nat.simps upt_conv_Cons)

theorem set_track_volume_clamps_and_compounds_witness:
  "map_of (tracks (snd (set_track_volume
       (snd (set_track_volume
          (snd (record_track (LiveMusicStudio_init 44100 2) ''track_0'' [1, 1, 1]))
          ''track_0'' (1 / 2)))
       ''track_0'' (1 / 2)))) ''track_0''
     = Some [1 / 4, 1 / 4, 1 / 4]
   \<and> map_of (tracks (snd (set_track_volume
          (snd (record_track (LiveMusicStudio_init 44100 2) ''track_0'' [1, 1, 1]))
          ''track_0'' 7))) ''track_0''
     = Some [1, 1, 1]"
proof -
  define S where "S = snd (record_track (LiveMusicStudio_init 44100 2) ''track_0'' [1, 1, 1])"
  have tr: "map_of (tracks S) ''track_0'' = Some [1, 1, 1]"
    by (simp add: S_def record_track_def tracks_init_2)
  have ok: "studio_ok S"
    using studio_ok_init [of 44100 2]
    by (simp add: S_def record_track_def tracks_init_2 studio_ok_def)
  from set_track_volume_clamps_and_compounds [OF ok tr, of "1 / 2"]
       set_track_volume_clamps_and_compounds [OF ok tr, of 7]
  show ?thesis
    unfolding S_def by (simp add: numeral_3_eq_3)
qed



























text \<open>
  Claim C10.  \<open>generate_track\<close> with an empty note sequence raises the error of
  \<^verbatim>\<open>np.concatenate\<close> on an empty list, whatever the track name and waveform, and leaves the
  studio as it was: nothing is stored.
\<close>

theorem generate_track_empty_notes:
  "generate_track s track_name [] waveform = (Inl NeedAtLeastOneArray, s)"
  by (simp add: generate_track_def np_concatenate_def)

end
